theory Spec2Isabelle
  imports Main
begin

section \<open>Data model\<close>

text \<open>
  A JavaScript string is a sequence of UTF-16 code units. Literals of the source are
  written through \<open>js_lit\<close>. A string is falsy exactly when it is empty.
\<close>

type_synonym js_string = "nat list"

definition js_lit :: "string \<Rightarrow> js_string" where
  "js_lit s = map of_char s"

text \<open>\<open>role: 'user' | 'assistant'\<close>\<close>

datatype version_role = User | Assistant

text \<open>
  \<open>interface ChatVersion\<close> (VersionNavigator.tsx, lines 30-38). The second variant of
  the component imports the type from \<open>types/versioning\<close>; of that type it reads these
  fields and \<open>versionId\<close>, which is only the React key of a list row.
  Version numbers are JavaScript numbers holding integers; they are modelled as \<open>int\<close>.
\<close>

record ChatVersion =
  versionNumber :: int
  isCurrentVersion :: bool
  content :: js_string
  contentPreview :: js_string
  createdAt :: js_string
  wordCount :: int
  characterCount :: int

text \<open>The props of \<open>VersionNavigator\<close> that the handlers read.\<close>

record VersionNavigationProps =
  chatId :: js_string
  role :: version_role
  currentVersion :: int
  totalVersions :: int
  hasMultipleVersions :: bool
  disabled :: bool

text \<open>
  The \<open>useState\<close> cells of the second variant (lines 387-394). \<open>menuAnchorEl\<close> is
  \<open>null\<close> or an element; the element is represented by a handle.
\<close>

record nav_state =
  versions :: "ChatVersion list"
  dialogOpen :: bool
  loading :: bool
  error :: "js_string option"
  menuAnchorEl :: "nat option"
  selectedVersionForMenu :: "ChatVersion option"
  compareMode :: bool
  selectedVersions :: "int list"

text \<open>
  A value thrown by a service call. The handlers read only its \<open>message\<close>, which
  may be absent.
\<close>

datatype js_error = JsError (message: "js_string option")

text \<open>
  The services imported from \<open>services/versioning\<close> (line 374): each call either
  resolves or rejects. The record is the injected store; a test double is a value of it.
\<close>

record version_store =
  getChatVersions :: "js_string \<Rightarrow> version_role \<Rightarrow> nat \<Rightarrow> js_error + ChatVersion list"
  switchToVersion :: "js_string \<Rightarrow> int \<Rightarrow> version_role \<Rightarrow> js_error + unit"
  deleteVersion :: "js_string \<Rightarrow> int \<Rightarrow> version_role \<Rightarrow> js_error + unit"
  compareVersions :: "js_string \<Rightarrow> int \<Rightarrow> int \<Rightarrow> version_role \<Rightarrow> js_error + js_string"

text \<open>
  What a spy on the collaborators observes, in call order: the store operations, the
  host callbacks and the clipboard.
\<close>

datatype call =
    GetChatVersions js_string version_role nat
  | SwitchToVersion js_string int version_role
  | DeleteVersion js_string int version_role
  | CompareVersions js_string int int version_role
  | OnLoadVersions js_string
  | OnVersionChange int
  | OnEditMessage js_string
  | ClipboardWriteText js_string

text \<open>\<open>error.message || fallback\<close>: the fallback is taken when the message is falsy.\<close>

definition message_or :: "js_error \<Rightarrow> js_string \<Rightarrow> js_string" where
  "message_or e fallback =
     (case message e of
        None \<Rightarrow> fallback
      | Some m \<Rightarrow> if m = [] then fallback else m)"

section \<open>VersionNavigator, second variant (lines 376-865)\<close>

text \<open>
  Every handler takes the store, the props of the current render and the state, and
  returns the state after all its \<open>set...\<close> calls together with the calls it issued.
\<close>

definition loadVersions ::
  "version_store \<Rightarrow> VersionNavigationProps \<Rightarrow> nav_state \<Rightarrow> nav_state \<times> call list" where
  "loadVersions store p s =
     (if chatId p = [] then (s, [])
      else
        let s1 = s\<lparr>loading := True\<rparr>;
            s2 = s1\<lparr>error := None\<rparr>
        in case getChatVersions store (chatId p) (role p) 50 of
             Inr vs \<Rightarrow>
               ((s2\<lparr>versions := vs\<rparr>)\<lparr>loading := False\<rparr>,
                [GetChatVersions (chatId p) (role p) 50])
           | Inl e \<Rightarrow>
               ((s2\<lparr>error := Some (message_or e (js_lit ''Failed to load versions''))\<rparr>)
                  \<lparr>loading := False\<rparr>,
                [GetChatVersions (chatId p) (role p) 50]))"

definition handlePreviousVersion ::
  "VersionNavigationProps \<Rightarrow> nav_state \<Rightarrow> nav_state \<times> call list" where
  "handlePreviousVersion p s =
     (if currentVersion p > 1 then (s, [OnVersionChange (currentVersion p - 1)])
      else (s, [OnVersionChange (totalVersions p)]))"

definition handleNextVersion ::
  "VersionNavigationProps \<Rightarrow> nav_state \<Rightarrow> nav_state \<times> call list" where
  "handleNextVersion p s =
     (if currentVersion p < totalVersions p then (s, [OnVersionChange (currentVersion p + 1)])
      else (s, [OnVersionChange 1]))"

definition handleVersionSelect ::
  "version_store \<Rightarrow> VersionNavigationProps \<Rightarrow> int \<Rightarrow> nav_state \<Rightarrow> nav_state \<times> call list" where
  "handleVersionSelect store p n s =
     (let s1 = s\<lparr>loading := True\<rparr>
      in case switchToVersion store (chatId p) n (role p) of
           Inr u \<Rightarrow>
             ((s1\<lparr>dialogOpen := False\<rparr>)\<lparr>loading := False\<rparr>,
              [SwitchToVersion (chatId p) n (role p), OnVersionChange n])
         | Inl e \<Rightarrow>
             ((s1\<lparr>error := Some (message_or e (js_lit ''Failed to switch version''))\<rparr>)
                \<lparr>loading := False\<rparr>,
              [SwitchToVersion (chatId p) n (role p)]))"

definition handleOpenDialog ::
  "version_store \<Rightarrow> VersionNavigationProps \<Rightarrow> nav_state \<Rightarrow> nav_state \<times> call list" where
  "handleOpenDialog store p s = loadVersions store p (s\<lparr>dialogOpen := True\<rparr>)"

definition handleMenuOpen :: "nat \<Rightarrow> ChatVersion \<Rightarrow> nav_state \<Rightarrow> nav_state" where
  "handleMenuOpen target v s = s\<lparr>menuAnchorEl := Some target, selectedVersionForMenu := Some v\<rparr>"

definition handleMenuClose :: "nav_state \<Rightarrow> nav_state" where
  "handleMenuClose s = s\<lparr>menuAnchorEl := None, selectedVersionForMenu := None\<rparr>"

definition handleDeleteVersion ::
  "version_store \<Rightarrow> VersionNavigationProps \<Rightarrow> int \<Rightarrow> nav_state \<Rightarrow> nav_state \<times> call list" where
  "handleDeleteVersion store p n s =
     (case selectedVersionForMenu s of
        None \<Rightarrow> (s, [])
      | Some v \<Rightarrow>
          (case deleteVersion store (chatId p) n (role p) of
             Inl e \<Rightarrow>
               (s\<lparr>error := Some (message_or e (js_lit ''Failed to delete version''))\<rparr>,
                [DeleteVersion (chatId p) n (role p)])
           | Inr u \<Rightarrow>
               (case loadVersions store p s of
                  (s1, cs) \<Rightarrow> (handleMenuClose s1, DeleteVersion (chatId p) n (role p) # cs))))"

definition handleCopyVersion ::
  "bool \<Rightarrow> js_string \<Rightarrow> nav_state \<Rightarrow> nav_state \<times> call list" where
  "handleCopyVersion clipboardOk text s =
     (if clipboardOk then (handleMenuClose s, [ClipboardWriteText text])
      else (s, [ClipboardWriteText text]))"

definition toggleCompareMode :: "nav_state \<Rightarrow> nav_state" where
  "toggleCompareMode s = s\<lparr>compareMode := \<not> compareMode s, selectedVersions := []\<rparr>"

definition handleVersionToggleForCompare :: "int \<Rightarrow> nav_state \<Rightarrow> nav_state" where
  "handleVersionToggleForCompare n s =
     (if n \<in> set (selectedVersions s)
      then s\<lparr>selectedVersions := filter (\<lambda>v. v \<noteq> n) (selectedVersions s)\<rparr>
      else if length (selectedVersions s) < 2
      then s\<lparr>selectedVersions := selectedVersions s @ [n]\<rparr>
      else s)"

definition handleCompareVersions ::
  "version_store \<Rightarrow> VersionNavigationProps \<Rightarrow> nav_state \<Rightarrow> nav_state \<times> call list" where
  "handleCompareVersions store p s =
     (case selectedVersions s of
        [a, b] \<Rightarrow>
          (case compareVersions store (chatId p) a b (role p) of
             Inr r \<Rightarrow> (s, [CompareVersions (chatId p) a b (role p)])
           | Inl e \<Rightarrow>
               (s\<lparr>error := Some (message_or e (js_lit ''Failed to compare versions''))\<rparr>,
                [CompareVersions (chatId p) a b (role p)]))
      | _ \<Rightarrow> (s, []))"

text \<open>The \<open>onClick\<close> of a row of the version list (lines 680-686).\<close>

definition listItemClick ::
  "version_store \<Rightarrow> VersionNavigationProps \<Rightarrow> ChatVersion \<Rightarrow> nav_state \<Rightarrow> nav_state \<times> call list" where
  "listItemClick store p v s =
     (if compareMode s then (handleVersionToggleForCompare (versionNumber v) s, [])
      else handleVersionSelect store p (versionNumber v) s)"

text \<open>
  The host of the component owns \<open>currentVersion\<close>. A host that adopts every version
  reported through \<open>onVersionChange\<close> re-renders the component with that version.
\<close>

fun hostAdopt :: "VersionNavigationProps \<Rightarrow> call list \<Rightarrow> VersionNavigationProps" where
  "hostAdopt p [] = p"
| "hostAdopt p (OnVersionChange n # cs) = hostAdopt (p\<lparr>currentVersion := n\<rparr>) cs"
| "hostAdopt p (c # cs) = hostAdopt p cs"

definition stepNextAdopted :: "nav_state \<Rightarrow> VersionNavigationProps \<Rightarrow> VersionNavigationProps" where
  "stepNextAdopted s p = hostAdopt p (snd (handleNextVersion p s))"

text \<open>
  What the component returns: \<open>None\<close> is \<open>return null\<close>; otherwise the parts of the
  markup that depend on props and state: the \<open>{currentVersion}/{totalVersions}\<close> label,
  the \<open>disabled\<close> flag of the three buttons, \<open>open\<close> of the dialog, the conditions
  under which the two compare buttons are rendered, \<open>open\<close> of the actions menu and
  \<open>disabled\<close> of its Delete Version item.
\<close>

record nav_view =
  indexLabel :: "int \<times> int"
  buttonsDisabled :: bool
  dialogShown :: bool
  compareButtonShown :: bool
  compareSelectedShown :: bool
  menuShown :: bool
  deleteItemDisabled :: bool

text \<open>\<open>disabled={selectedVersionForMenu?.isCurrentVersion}\<close> (line 857).\<close>

definition deleteDisabled :: "nav_state \<Rightarrow> bool" where
  "deleteDisabled s =
     (case selectedVersionForMenu s of None \<Rightarrow> False | Some v \<Rightarrow> isCurrentVersion v)"

definition VersionNavigator :: "VersionNavigationProps \<Rightarrow> nav_state \<Rightarrow> nav_view option" where
  "VersionNavigator p s =
     (if \<not> hasMultipleVersions p \<and> totalVersions p \<le> 1 then None
      else Some \<lparr>indexLabel = (currentVersion p, totalVersions p),
                 buttonsDisabled = disabled p,
                 dialogShown = dialogOpen s,
                 compareButtonShown = (length (versions s) > 1),
                 compareSelectedShown = (compareMode s \<and> length (selectedVersions s) = 2),
                 menuShown = (menuAnchorEl s \<noteq> None),
                 deleteItemDisabled = deleteDisabled s\<rparr>)"

text \<open>
  The items of the actions menu (lines 836-861). The menu is shown only while
  \<open>menuAnchorEl\<close> is set; a disabled item does not run its \<open>onClick\<close>; each
  \<open>onClick\<close> is guarded by \<open>selectedVersionForMenu &&\<close>.
\<close>

definition switchItemClick ::
  "version_store \<Rightarrow> VersionNavigationProps \<Rightarrow> nav_state \<Rightarrow> nav_state \<times> call list" where
  "switchItemClick store p s =
     (if menuAnchorEl s = None then (s, [])
      else case selectedVersionForMenu s of
             None \<Rightarrow> (s, [])
           | Some v \<Rightarrow> handleVersionSelect store p (versionNumber v) s)"

definition deleteItemClick ::
  "version_store \<Rightarrow> VersionNavigationProps \<Rightarrow> nav_state \<Rightarrow> nav_state \<times> call list" where
  "deleteItemClick store p s =
     (if menuAnchorEl s = None then (s, [])
      else if deleteDisabled s then (s, [])
      else case selectedVersionForMenu s of
             None \<Rightarrow> (s, [])
           | Some v \<Rightarrow> handleDeleteVersion store p (versionNumber v) s)"

text \<open>The number of store delete calls a spy has seen.\<close>

fun is_delete_call :: "call \<Rightarrow> bool" where
  "is_delete_call (DeleteVersion c n r) = True"
| "is_delete_call other = False"

definition deleteCalls :: "call list \<Rightarrow> nat" where
  "deleteCalls cs = length (filter is_delete_call cs)"

section \<open>The user's actions on the second variant\<close>

text \<open>
  One constructor per control of the markup (lines 528-863). A control that is not
  rendered, or is rendered disabled, runs no handler:
  the whole component is absent when \<open>VersionNavigator\<close> returns \<open>null\<close>;
  the three buttons of the bar carry \<open>disabled={disabled}\<close>;
  the dialog's content exists only while \<open>dialogOpen\<close>;
  the Compare button is rendered when \<open>versions.length > 1\<close>, the Compare Selected
  button when \<open>compareMode && selectedVersions.length === 2\<close>;
  the rows (and the menu button of each row) are rendered for the members of
  \<open>versions\<close> when \<open>loading\<close> is false;
  the menu items exist only while \<open>menuAnchorEl\<close> is set.
\<close>

datatype action =
    ClickPrevious
  | ClickNext
  | ClickViewAll
  | CloseDialog
  | ClickRow ChatVersion
  | ClickCompare
  | ClickCompareSelected
  | OpenMenu nat ChatVersion
  | CloseMenu
  | ClickCopy bool
  | ClickSwitch
  | ClickDelete

definition rowShown :: "ChatVersion \<Rightarrow> nav_state \<Rightarrow> bool" where
  "rowShown v s = (dialogOpen s \<and> \<not> loading s \<and> v \<in> set (versions s))"

fun handler ::
  "version_store \<Rightarrow> VersionNavigationProps \<Rightarrow> action \<Rightarrow> nav_state \<Rightarrow> nav_state \<times> call list" where
  "handler store p ClickPrevious s =
     (if disabled p then (s, []) else handlePreviousVersion p s)"
| "handler store p ClickNext s =
     (if disabled p then (s, []) else handleNextVersion p s)"
| "handler store p ClickViewAll s =
     (if disabled p then (s, []) else handleOpenDialog store p s)"
| "handler store p CloseDialog s = (s\<lparr>dialogOpen := False\<rparr>, [])"
| "handler store p (ClickRow v) s =
     (if rowShown v s then listItemClick store p v s else (s, []))"
| "handler store p ClickCompare s =
     (if dialogOpen s \<and> length (versions s) > 1 then (toggleCompareMode s, []) else (s, []))"
| "handler store p ClickCompareSelected s =
     (if dialogOpen s \<and> compareMode s \<and> length (selectedVersions s) = 2
      then handleCompareVersions store p s
      else (s, []))"
| "handler store p (OpenMenu target v) s =
     (if rowShown v s then (handleMenuOpen target v s, []) else (s, []))"
| "handler store p CloseMenu s = (handleMenuClose s, [])"
| "handler store p (ClickCopy ok) s =
     (if menuAnchorEl s = None then (s, [])
      else case selectedVersionForMenu s of
             None \<Rightarrow> (s, [])
           | Some v \<Rightarrow> handleCopyVersion ok (content v) s)"
| "handler store p ClickSwitch s = switchItemClick store p s"
| "handler store p ClickDelete s = deleteItemClick store p s"

definition perform ::
  "version_store \<Rightarrow> VersionNavigationProps \<Rightarrow> action \<Rightarrow> nav_state \<Rightarrow> nav_state \<times> call list" where
  "perform store p a s =
     (case VersionNavigator p s of None \<Rightarrow> (s, []) | Some view \<Rightarrow> handler store p a s)"

text \<open>
  A session: each action is performed against the store and under the props of its
  moment.
\<close>

fun run ::
  "nav_state \<Rightarrow> (version_store \<times> VersionNavigationProps \<times> action) list \<Rightarrow> nav_state" where
  "run s [] = s"
| "run s ((store, p, a) # rest) = run (fst (perform store p a s)) rest"

text \<open>The selection holds at most two version numbers, without duplicates.\<close>

definition selection_ok :: "nav_state \<Rightarrow> bool" where
  "selection_ok s = (length (selectedVersions s) \<le> 2 \<and> distinct (selectedVersions s))"

section \<open>VersionNavigator, first variant (lines 50-333)\<close>

text \<open>
  The first variant has no store services: it loads through the \<open>onLoadVersions\<close>
  prop and keeps only \<open>versions\<close>, \<open>dialogOpen\<close> and \<open>loading\<close>. Its failure branch
  only logs. Its guard \<open>if (!hasMultipleVersions) return null\<close> is commented out
  (lines 103-105).
\<close>

definition loadVersions_v1 ::
  "(js_string \<Rightarrow> js_error + ChatVersion list) \<Rightarrow> VersionNavigationProps \<Rightarrow> nav_state
     \<Rightarrow> nav_state \<times> call list" where
  "loadVersions_v1 onLoadVersions p s =
     (if chatId p = [] then (s, [])
      else
        let s1 = s\<lparr>loading := True\<rparr>
        in case onLoadVersions (chatId p) of
             Inr vs \<Rightarrow> ((s1\<lparr>versions := vs\<rparr>)\<lparr>loading := False\<rparr>, [OnLoadVersions (chatId p)])
           | Inl e \<Rightarrow> (s1\<lparr>loading := False\<rparr>, [OnLoadVersions (chatId p)]))"

definition handleVersionSelect_v1 :: "int \<Rightarrow> nav_state \<Rightarrow> nav_state \<times> call list" where
  "handleVersionSelect_v1 n s = (s\<lparr>dialogOpen := False\<rparr>, [OnVersionChange n])"

definition VersionNavigator_v1 :: "VersionNavigationProps \<Rightarrow> nav_state \<Rightarrow> nav_view option" where
  "VersionNavigator_v1 p s =
     Some \<lparr>indexLabel = (currentVersion p, totalVersions p),
           buttonsDisabled = disabled p,
           dialogShown = dialogOpen s,
           compareButtonShown = False,
           compareSelectedShown = False,
           menuShown = False,
           deleteItemDisabled = False\<rparr>"

section \<open>Message editing (MessageEditor.tsx and the ChatMessage that hosts it)\<close>

text \<open>
  \<open>String.prototype.trim\<close> strips the code units that ECMAScript classifies as
  WhiteSpace or LineTerminator from both ends.
\<close>

definition is_js_whitespace :: "nat \<Rightarrow> bool" where
  "is_js_whitespace c =
     (c = 0x09 \<or> c = 0x0A \<or> c = 0x0B \<or> c = 0x0C \<or> c = 0x0D \<or> c = 0x20 \<or> c = 0xA0
      \<or> c = 0x1680 \<or> (0x2000 \<le> c \<and> c \<le> 0x200A) \<or> c = 0x2028 \<or> c = 0x2029
      \<or> c = 0x202F \<or> c = 0x205F \<or> c = 0x3000 \<or> c = 0xFEFF)"

definition trim :: "js_string \<Rightarrow> js_string" where
  "trim s = rev (dropWhile is_js_whitespace (rev (dropWhile is_js_whitespace s)))"

text \<open>
  The state of \<open>MessageEditor\<close> (lines 40-41) and the editing state of the
  \<open>ChatMessage\<close> that renders it (unnamed/part_000, lines 63-64). Of the props of
  \<open>ChatMessage\<close> the handlers read \<open>message.content\<close> and whether the optional
  \<open>onEditMessage\<close> was supplied.
\<close>

record editor_state =
  editedContent :: js_string
  hasChanges :: bool

record chat_message_state =
  copied :: bool
  isEditing :: bool

record ChatMessageProps =
  messageContent :: js_string
  onEditMessageGiven :: bool

text \<open>ChatMessage (unnamed/part_000, lines 76-89).\<close>

definition handleStartEdit :: "chat_message_state \<Rightarrow> chat_message_state" where
  "handleStartEdit h = h\<lparr>isEditing := True\<rparr>"

definition handleSaveEdit ::
  "ChatMessageProps \<Rightarrow> js_string \<Rightarrow> chat_message_state \<Rightarrow> chat_message_state \<times> call list" where
  "handleSaveEdit cp c h =
     (if onEditMessageGiven cp \<and> c \<noteq> messageContent cp \<and> trim c \<noteq> []
      then (h\<lparr>isEditing := False\<rparr>, [OnEditMessage c])
      else (h\<lparr>isEditing := False\<rparr>, []))"

definition handleCancelEdit :: "chat_message_state \<Rightarrow> chat_message_state" where
  "handleCancelEdit h = h\<lparr>isEditing := False\<rparr>"

text \<open>
  MessageEditor. The effect of lines 48-50 recomputes \<open>hasChanges\<close> after every change
  of \<open>editedContent\<close>; \<open>editorChange\<close> is the text field's \<open>onChange\<close> followed by that
  effect. \<open>handleSave\<close> (lines 52-56) receives the \<open>onSaveEdit\<close> prop as a function on
  the host's state.
\<close>

definition editorChange :: "js_string \<Rightarrow> js_string \<Rightarrow> editor_state \<Rightarrow> editor_state" where
  "editorChange initialContent v ed =
     (let ed1 = ed\<lparr>editedContent := v\<rparr>
      in ed1\<lparr>hasChanges := (editedContent ed1 \<noteq> initialContent)\<rparr>)"

definition handleSave ::
  "(js_string \<Rightarrow> 'h \<Rightarrow> 'h \<times> call list) \<Rightarrow> editor_state \<Rightarrow> 'h \<Rightarrow> 'h \<times> call list" where
  "handleSave onSaveEdit ed h =
     (if trim (editedContent ed) \<noteq> [] \<and> hasChanges ed
      then onSaveEdit (trim (editedContent ed)) h
      else (h, []))"

text \<open>
  The editor as editing starts: \<open>editedContent\<close> is seeded with \<open>initialContent\<close>
  and \<open>hasChanges\<close> is false (lines 40-46).
\<close>

definition seededEditor :: "js_string \<Rightarrow> editor_state" where
  "seededEditor initialContent = \<lparr>editedContent = initialContent, hasChanges = False\<rparr>"

text \<open>
  Saving a draft: the user has typed \<open>draft\<close> into the editor that ChatMessage renders
  with \<open>initialContent={message.content}\<close> and \<open>onSaveEdit={handleSaveEdit}\<close>
  (unnamed/part_000, lines 263-272), then saves.
\<close>

definition saveEdit ::
  "ChatMessageProps \<Rightarrow> js_string \<Rightarrow> editor_state \<Rightarrow> chat_message_state
     \<Rightarrow> chat_message_state \<times> call list" where
  "saveEdit cp draft ed h =
     handleSave (handleSaveEdit cp) (editorChange (messageContent cp) draft ed) h"

section \<open>Test doubles\<close>

definition version1 :: ChatVersion where
  "version1 = \<lparr>versionNumber = 1, isCurrentVersion = True, content = js_lit ''hello'',
               contentPreview = js_lit ''hello'', createdAt = js_lit ''2025-01-01'',
               wordCount = 1, characterCount = 5\<rparr>"

definition version2 :: ChatVersion where
  "version2 = \<lparr>versionNumber = 2, isCurrentVersion = False, content = js_lit ''hello there'',
               contentPreview = js_lit ''hello there'', createdAt = js_lit ''2025-01-02'',
               wordCount = 2, characterCount = 11\<rparr>"

definition version3 :: ChatVersion where
  "version3 = \<lparr>versionNumber = 3, isCurrentVersion = False, content = js_lit ''hi'',
               contentPreview = js_lit ''hi'', createdAt = js_lit ''2025-01-03'',
               wordCount = 1, characterCount = 2\<rparr>"

text \<open>A store whose every call resolves, and one whose every call rejects.\<close>

definition resolvingStore :: version_store where
  "resolvingStore =
     \<lparr>getChatVersions = (\<lambda>c r l. Inr [version1, version2, version3]),
      switchToVersion = (\<lambda>c n r. Inr ()),
      deleteVersion = (\<lambda>c n r. Inr ()),
      compareVersions = (\<lambda>c a b r. Inr [])\<rparr>"

definition rejectingStore :: version_store where
  "rejectingStore =
     \<lparr>getChatVersions = (\<lambda>c r l. Inl (JsError (Some (js_lit ''Network Error'')))),
      switchToVersion = (\<lambda>c n r. Inl (JsError None)),
      deleteVersion = (\<lambda>c n r. Inl (JsError None)),
      compareVersions = (\<lambda>c a b r. Inl (JsError None))\<rparr>"

definition initialState :: nav_state where
  "initialState = \<lparr>versions = [], dialogOpen = False, loading = False, error = None,
                   menuAnchorEl = None, selectedVersionForMenu = None,
                   compareMode = False, selectedVersions = []\<rparr>"

definition sampleProps :: VersionNavigationProps where
  "sampleProps = \<lparr>chatId = js_lit ''chat-1'', role = User, currentVersion = 1,
                  totalVersions = 3, hasMultipleVersions = True, disabled = False\<rparr>"

text \<open>
  A session on a message with three versions: the user opens the browser, opens the
  actions menu of version 2 and chooses Switch to This Version; the host adopts
  version 2. The menu is still open on the row object loaded before the switch.
\<close>

definition staleMenuState :: nav_state where
  "staleMenuState =
     run initialState
       [(resolvingStore, sampleProps, ClickViewAll),
        (resolvingStore, sampleProps, OpenMenu 7 version2),
        (resolvingStore, sampleProps, ClickSwitch)]"

definition adoptedProps :: VersionNavigationProps where
  "adoptedProps = hostAdopt sampleProps [OnVersionChange 2]"

text \<open>A message flagged as having several versions while its count is 1.\<close>

definition flaggedSingleProps :: VersionNavigationProps where
  "flaggedSingleProps = \<lparr>chatId = js_lit ''chat-1'', role = User, currentVersion = 1,
                         totalVersions = 1, hasMultipleVersions = True, disabled = False\<rparr>"

text \<open>A message \<open>hello\<close> being edited, and one whose content starts with a space.\<close>

definition helloProps :: ChatMessageProps where
  "helloProps = \<lparr>messageContent = js_lit ''hello'', onEditMessageGiven = True\<rparr>"

definition paddedProps :: ChatMessageProps where
  "paddedProps = \<lparr>messageContent = js_lit '' hello'', onEditMessageGiven = True\<rparr>"


definition editingState :: chat_message_state where
  "editingState = \<lparr>copied = False, isEditing = True\<rparr>"

text \<open>An \<open>onLoadVersions\<close> prop that resolves (first variant).\<close>

definition resolvingLoader :: "js_string \<Rightarrow> js_error + ChatVersion list" where
  "resolvingLoader c = Inr [version1, version2, version3]"

text \<open>The browser open in compare mode on the three loaded versions.\<close>

definition compareState :: nav_state where
  "compareState = initialState\<lparr>versions := [version1, version2, version3], dialogOpen := True,
                               compareMode := True\<rparr>"

section \<open>Helper lemmas\<close>

lemma message_or_nonempty: "fallback \<noteq> [] \<Longrightarrow> message_or e fallback \<noteq> []"
  by (simp add: message_or_def split: option.splits)

lemma js_lit_nonempty: "s \<noteq> [] \<Longrightarrow> js_lit s \<noteq> []"
  by (simp add: js_lit_def)

lemma stepNextAdopted_total [simp]: "totalVersions (stepNextAdopted s p) = totalVersions p"
  by (simp add: stepNextAdopted_def handleNextVersion_def)

lemma stepNextAdopted_current:
  "currentVersion (stepNextAdopted s p) =
     (if currentVersion p < totalVersions p then currentVersion p + 1 else 1)"
  by (simp add: stepNextAdopted_def handleNextVersion_def)

lemma stepNextAdopted_funpow_total [simp]:
  "totalVersions ((stepNextAdopted s ^^ k) p) = totalVersions p"
  by (induction k) simp_all

lemma stepNextAdopted_funpow_current:
  "currentVersion p = 1 \<Longrightarrow> int k < totalVersions p \<Longrightarrow>
   currentVersion ((stepNextAdopted s ^^ k) p) = 1 + int k"
  by (induction k) (simp_all add: stepNextAdopted_current)

text \<open>The first variant selects a version without any store call.\<close>

lemma handleVersionSelect_v1_calls:
  "snd (handleVersionSelect_v1 n s) = [OnVersionChange n]
   \<and> \<not> dialogOpen (fst (handleVersionSelect_v1 n s))"
  by (simp add: handleVersionSelect_v1_def)

text \<open>Only the compare toggle and the compare-mode row click write \<open>selectedVersions\<close>.\<close>

lemma loadVersions_selected [simp]:
  "selectedVersions (fst (loadVersions store p s)) = selectedVersions s"
  by (simp add: loadVersions_def Let_def split: sum.splits)

lemma handleVersionSelect_selected [simp]:
  "selectedVersions (fst (handleVersionSelect store p n s)) = selectedVersions s"
  by (simp add: handleVersionSelect_def Let_def split: sum.splits)

lemma handleDeleteVersion_selected [simp]:
  "selectedVersions (fst (handleDeleteVersion store p n s)) = selectedVersions s"
proof -
  have "selectedVersions (handleMenuClose (fst (loadVersions store p s))) = selectedVersions s"
    by (simp add: handleMenuClose_def)
  then show ?thesis
    by (simp add: handleDeleteVersion_def split: option.splits sum.splits prod.splits)
       (metis fst_conv)
qed

lemma handleCompareVersions_selected [simp]:
  "selectedVersions (fst (handleCompareVersions store p s)) = selectedVersions s"
  by (simp add: handleCompareVersions_def split: list.splits sum.splits)

lemma filter_neq_removeAll: "filter (\<lambda>x. x \<noteq> n) xs = removeAll n xs"
  by (induction xs) auto

lemma toggle_selection_ok:
  assumes ok: "selection_ok s"
  shows "selection_ok (handleVersionToggleForCompare n s)"
proof -
  have "length (filter (\<lambda>v. v \<noteq> n) (selectedVersions s)) \<le> length (selectedVersions s)"
    by (rule length_filter_le)
  also have "\<dots> \<le> 2" using ok by (simp add: selection_ok_def)
  finally have short: "length (filter (\<lambda>v. v \<noteq> n) (selectedVersions s)) \<le> 2" .
  show ?thesis
  proof (cases "n \<in> set (selectedVersions s)")
    case True
    with ok short show ?thesis
      by (simp add: selection_ok_def handleVersionToggleForCompare_def)
  next
    case False
    with ok show ?thesis
      by (simp add: selection_ok_def handleVersionToggleForCompare_def)
  qed
qed

lemma handler_selection_ok:
  assumes ok: "selection_ok s"
  shows "selection_ok (fst (handler store p a s))"
proof (cases a)
  case (ClickRow v)
  then show ?thesis
    using ok toggle_selection_ok[OF ok, of "versionNumber v"]
    by (simp add: listItemClick_def selection_ok_def)
next
  case ClickCompare
  then show ?thesis using ok by (simp add: toggleCompareMode_def selection_ok_def)
qed (use ok in \<open>simp_all add: selection_ok_def handlePreviousVersion_def handleNextVersion_def
       handleOpenDialog_def handleMenuOpen_def handleMenuClose_def handleCopyVersion_def
       switchItemClick_def deleteItemClick_def split: option.splits\<close>)

lemma perform_selection_ok:
  "selection_ok s \<Longrightarrow> selection_ok (fst (perform store p a s))"
  by (simp add: perform_def handler_selection_ok split: option.splits)

lemma run_selection_ok: "selection_ok s \<Longrightarrow> selection_ok (run s as)"
  by (induction s as rule: run.induct) (simp_all add: perform_selection_ok)

text \<open>\<open>trim\<close> is idempotent: a trimmed string has no white space at either end.\<close>

lemma dropWhile_self: "xs = [] \<or> \<not> P (hd xs) \<Longrightarrow> dropWhile P xs = xs"
  by (cases xs) auto

lemma last_dropWhile: "dropWhile P xs \<noteq> [] \<Longrightarrow> last (dropWhile P xs) = last xs"
proof -
  assume ne: "dropWhile P xs \<noteq> []"
  have "last xs = last (takeWhile P xs @ dropWhile P xs)" by simp
  also have "\<dots> = last (dropWhile P xs)" using ne by (rule last_appendR)
  finally show ?thesis by simp
qed

lemma trim_idem: "trim (trim s) = trim s"
proof -
  define a where "a = dropWhile is_js_whitespace s"
  define b where "b = dropWhile is_js_whitespace (rev a)"
  have t: "trim s = rev b" by (simp add: trim_def a_def b_def)
  have at_front: "dropWhile is_js_whitespace (rev b) = rev b"
  proof (cases "b = []")
    case True
    then show ?thesis by simp
  next
    case False
    then have "rev a \<noteq> []" by (auto simp: b_def)
    then have an: "a \<noteq> []" by simp
    have "\<not> is_js_whitespace (hd a)" using an unfolding a_def by (rule hd_dropWhile)
    moreover have "hd (rev b) = last b" using False by (simp add: hd_rev)
    moreover have "last b = last (rev a)" using False unfolding b_def
      by (rule last_dropWhile)
    moreover have "last (rev a) = hd a" using an by (simp add: last_rev)
    ultimately show ?thesis by (intro dropWhile_self) simp
  qed
  have at_back: "dropWhile is_js_whitespace b = b" by (simp add: b_def)
  show ?thesis unfolding t by (simp add: trim_def at_front at_back)
qed

section \<open>Deleting a version\<close>

text \<open>
  The attempt of the code: the Delete Version item is disabled on the
  \<open>isCurrentVersion\<close> flag of the row opened in the menu. While that flag agrees with
  the host's \<open>currentVersion\<close>, a click on the item for the current version runs nothing.
\<close>

lemma delete_item_fresh_flag:
  assumes "selectedVersionForMenu s = Some v"
    and "isCurrentVersion v = (versionNumber v = currentVersion p)"
    and "versionNumber v = currentVersion p"
  shows "deleteItemClick store p s = (s, [])"
  using assms by (simp add: deleteItemClick_def deleteDisabled_def)

text \<open>
  C1. Deleting the version that is current must issue no call to the store's delete
  operation. The code misses a case. In the session \<open>staleMenuState\<close> the user opens
  the browser, opens the actions menu of version 2 and chooses Switch to This Version;
  \<open>handleVersionSelect\<close> does not close the menu (the copy and delete handlers do), and
  the host adopts version 2. The menu still holds the row of version 2 as loaded while
  version 1 was current, so Delete Version is enabled, and the click calls the store's
  delete operation for version 2, the current version: one delete call where the claim
  demands none. \<open>handleDeleteVersion\<close> itself, called with the current version, does
  the same.
\<close>

theorem delete_current_version_reaches_store:
  "currentVersion adoptedProps = 2
   \<and> snd (deleteItemClick resolvingStore adoptedProps staleMenuState) =
       [DeleteVersion (js_lit ''chat-1'') 2 User, GetChatVersions (js_lit ''chat-1'') User 50]
   \<and> deleteCalls (snd (deleteItemClick resolvingStore adoptedProps staleMenuState)) = 1
   \<and> deleteCalls (snd (handleDeleteVersion resolvingStore adoptedProps
                         (currentVersion adoptedProps) staleMenuState)) = 1"
  by (simp add: adoptedProps_def staleMenuState_def perform_def VersionNavigator_def
      sampleProps_def initialState_def handleOpenDialog_def loadVersions_def resolvingStore_def
      Let_def js_lit_def rowShown_def handleMenuOpen_def handleMenuClose_def switchItemClick_def
      handleVersionSelect_def deleteItemClick_def deleteDisabled_def handleDeleteVersion_def
      deleteCalls_def version1_def version2_def version3_def)

section \<open>Visibility\<close>

text \<open>
  C2 as stated fails: with \<open>hasMultipleVersions\<close> set and \<open>totalVersions = 1\<close> both
  variants render the control.
\<close>

theorem single_version_rendered_counterexample:
  "totalVersions flaggedSingleProps \<le> 1
   \<and> VersionNavigator flaggedSingleProps initialState \<noteq> None
   \<and> VersionNavigator_v1 flaggedSingleProps initialState \<noteq> None"
  by (simp add: flaggedSingleProps_def VersionNavigator_def VersionNavigator_v1_def)

text \<open>
  C2, amended. The second variant renders nothing exactly when \<open>hasMultipleVersions\<close>
  is false and \<open>totalVersions \<le> 1\<close>; the first variant, whose guard is commented
  out, always renders the control.
\<close>

theorem navigator_absent_iff:
  "(VersionNavigator p s = None) = (\<not> hasMultipleVersions p \<and> totalVersions p \<le> 1)
   \<and> VersionNavigator_v1 p s \<noteq> None"
  by (simp add: VersionNavigator_def VersionNavigator_v1_def)

theorem navigator_absent_iff_witness:
  "VersionNavigator (flaggedSingleProps\<lparr>hasMultipleVersions := False\<rparr>) initialState = None
   \<and> VersionNavigator (flaggedSingleProps\<lparr>hasMultipleVersions := False, totalVersions := 0\<rparr>)
        initialState = None
   \<and> VersionNavigator sampleProps initialState \<noteq> None"
  using navigator_absent_iff [of "flaggedSingleProps\<lparr>hasMultipleVersions := False\<rparr>" initialState]
        navigator_absent_iff
          [of "flaggedSingleProps\<lparr>hasMultipleVersions := False, totalVersions := 0\<rparr>" initialState]
        navigator_absent_iff [of sampleProps initialState]
  by (simp add: flaggedSingleProps_def sampleProps_def)

section \<open>Refreshing the version list\<close>

text \<open>
  C3. With a non-empty \<open>chatId\<close> (so that the store's list operation is called), from
  every prior state: if the call resolves with \<open>vs\<close>, \<open>versions\<close> becomes \<open>vs\<close> and
  \<open>error\<close> ends \<open>null\<close>; if it rejects, \<open>versions\<close> is as before and \<open>error\<close>
  ends as a non-empty message; in both outcomes \<open>loading\<close> ends false. A refresh that
  resolves after one that rejected leaves \<open>error\<close> \<open>null\<close>. The list operation is
  called exactly once, with the limit 50.
\<close>

theorem refresh_contract:
  assumes "chatId p \<noteq> []"
  shows "(getChatVersions store (chatId p) (role p) 50 = Inr vs \<longrightarrow>
            versions (fst (loadVersions store p s)) = vs
          \<and> error (fst (loadVersions store p s)) = None
          \<and> \<not> loading (fst (loadVersions store p s)))
       \<and> (getChatVersions store (chatId p) (role p) 50 = Inl e \<longrightarrow>
            versions (fst (loadVersions store p s)) = versions s
          \<and> error (fst (loadVersions store p s)) =
              Some (message_or e (js_lit ''Failed to load versions''))
          \<and> message_or e (js_lit ''Failed to load versions'') \<noteq> []
          \<and> \<not> loading (fst (loadVersions store p s)))
       \<and> (getChatVersions store (chatId p) (role p) 50 = Inl e
            \<and> getChatVersions store' (chatId p) (role p) 50 = Inr vs \<longrightarrow>
            error (fst (loadVersions store' p (fst (loadVersions store p s)))) = None
          \<and> versions (fst (loadVersions store' p (fst (loadVersions store p s)))) = vs)
       \<and> snd (loadVersions store p s) = [GetChatVersions (chatId p) (role p) 50]"
  using assms
  by (simp add: loadVersions_def Let_def message_or_nonempty js_lit_nonempty split: sum.splits)

theorem refresh_contract_witness:
  "chatId sampleProps \<noteq> []
   \<and> getChatVersions resolvingStore (chatId sampleProps) (role sampleProps) 50
       = Inr [version1, version2, version3]
   \<and> fst (loadVersions resolvingStore sampleProps initialState)
       = initialState\<lparr>versions := [version1, version2, version3]\<rparr>
   \<and> getChatVersions rejectingStore (chatId sampleProps) (role sampleProps) 50
       = Inl (JsError (Some (js_lit ''Network Error'')))
   \<and> versions (fst (loadVersions rejectingStore sampleProps
                       (initialState\<lparr>versions := [version1], loading := True\<rparr>))) = [version1]
   \<and> error (fst (loadVersions rejectingStore sampleProps
                    (initialState\<lparr>versions := [version1], loading := True\<rparr>)))
       = Some (js_lit ''Network Error'')
   \<and> \<not> loading (fst (loadVersions rejectingStore sampleProps
                        (initialState\<lparr>versions := [version1], loading := True\<rparr>)))
   \<and> error (fst (loadVersions resolvingStore sampleProps
                    (fst (loadVersions rejectingStore sampleProps initialState)))) = None"
  using refresh_contract [of sampleProps resolvingStore "[version1, version2, version3]"
                             initialState "JsError None" resolvingStore]
        refresh_contract [of sampleProps rejectingStore "[version1, version2, version3]"
                             "initialState\<lparr>versions := [version1], loading := True\<rparr>"
                             "JsError (Some (js_lit ''Network Error''))" resolvingStore]
        refresh_contract [of sampleProps rejectingStore "[version1, version2, version3]"
                             initialState
                             "JsError (Some (js_lit ''Network Error''))" resolvingStore]
  by (simp add: sampleProps_def resolvingStore_def rejectingStore_def initialState_def
        js_lit_def message_or_def loadVersions_def Let_def)

text \<open>
  C10. With an empty \<open>chatId\<close> the refresh returns at once, in both variants: no call
  is issued and the state, in particular \<open>versions\<close>, \<open>loading\<close> and \<open>error\<close>, is
  unchanged.
\<close>

theorem refresh_without_chat_id:
  assumes "chatId p = []"
  shows "loadVersions store p s = (s, []) \<and> loadVersions_v1 onLoadVersions p s = (s, [])"
  using assms by (simp add: loadVersions_def loadVersions_v1_def)

theorem refresh_without_chat_id_witness:
  "chatId (sampleProps\<lparr>chatId := []\<rparr>) = []
   \<and> loadVersions resolvingStore (sampleProps\<lparr>chatId := []\<rparr>) initialState = (initialState, [])
   \<and> loadVersions_v1 resolvingLoader (sampleProps\<lparr>chatId := []\<rparr>) initialState
       = (initialState, [])"
  using refresh_without_chat_id [of "sampleProps\<lparr>chatId := []\<rparr>" resolvingStore initialState
                                    resolvingLoader]
  by simp

section \<open>Selecting a version\<close>

text \<open>
  C4 as stated fails on the first variant: its \<open>handleVersionSelect\<close> reports the
  version through \<open>onVersionChange\<close> and closes the dialog at once, with no store call
  before it.
\<close>

theorem select_version_v1_counterexample:
  "dialogOpen (initialState\<lparr>dialogOpen := True\<rparr>)
   \<and> snd (handleVersionSelect_v1 2 (initialState\<lparr>dialogOpen := True\<rparr>)) = [OnVersionChange 2]
   \<and> \<not> dialogOpen (fst (handleVersionSelect_v1 2 (initialState\<lparr>dialogOpen := True\<rparr>)))
   \<and> currentVersion (hostAdopt sampleProps
        (snd (handleVersionSelect_v1 2 (initialState\<lparr>dialogOpen := True\<rparr>)))) = 2"
  by (simp add: handleVersionSelect_v1_def initialState_def sampleProps_def)

text \<open>
  C4, amended. In the second variant, in normal mode (\<open>compareMode\<close> false), a click on
  the row of version \<open>n\<close> first calls the store's switch operation for \<open>n\<close>. If the
  call resolves, \<open>n\<close> is then reported through \<open>onVersionChange\<close> and the dialog is
  closed. If it rejects, nothing is reported, \<open>error\<close> is set to a non-empty message,
  the dialog is as it was, and a host that adopts what is reported keeps its current
  version. The first variant has no store and no modes: selecting \<open>n\<close> reports \<open>n\<close>
  through \<open>onVersionChange\<close> and closes the dialog, and issues no other call.
\<close>

theorem select_version_both_variants:
  assumes "\<not> compareMode s"
  shows "(switchToVersion store (chatId p) (versionNumber v) (role p) = Inr () \<longrightarrow>
            snd (listItemClick store p v s) =
              [SwitchToVersion (chatId p) (versionNumber v) (role p),
               OnVersionChange (versionNumber v)]
          \<and> \<not> dialogOpen (fst (listItemClick store p v s))
          \<and> currentVersion (hostAdopt p (snd (listItemClick store p v s))) = versionNumber v)
       \<and> (switchToVersion store (chatId p) (versionNumber v) (role p) = Inl e \<longrightarrow>
            snd (listItemClick store p v s) =
              [SwitchToVersion (chatId p) (versionNumber v) (role p)]
          \<and> error (fst (listItemClick store p v s)) =
              Some (message_or e (js_lit ''Failed to switch version''))
          \<and> message_or e (js_lit ''Failed to switch version'') \<noteq> []
          \<and> dialogOpen (fst (listItemClick store p v s)) = dialogOpen s
          \<and> hostAdopt p (snd (listItemClick store p v s)) = p)
       \<and> snd (handleVersionSelect_v1 (versionNumber v) s) = [OnVersionChange (versionNumber v)]
       \<and> \<not> dialogOpen (fst (handleVersionSelect_v1 (versionNumber v) s))
       \<and> currentVersion (hostAdopt p (snd (handleVersionSelect_v1 (versionNumber v) s)))
           = versionNumber v"
  using assms
  by (simp add: listItemClick_def handleVersionSelect_def Let_def message_or_nonempty
        js_lit_nonempty handleVersionSelect_v1_calls)

theorem select_version_both_variants_witness:
  "\<not> compareMode (initialState\<lparr>dialogOpen := True\<rparr>)
   \<and> switchToVersion resolvingStore (chatId sampleProps) (versionNumber version2)
        (role sampleProps) = Inr ()
   \<and> snd (listItemClick resolvingStore sampleProps version2 (initialState\<lparr>dialogOpen := True\<rparr>))
       = [SwitchToVersion (js_lit ''chat-1'') 2 User, OnVersionChange 2]
   \<and> \<not> dialogOpen (fst (listItemClick resolvingStore sampleProps version2
                           (initialState\<lparr>dialogOpen := True\<rparr>)))
   \<and> switchToVersion rejectingStore (chatId sampleProps) (versionNumber version2)
        (role sampleProps) = Inl (JsError None)
   \<and> snd (listItemClick rejectingStore sampleProps version2 (initialState\<lparr>dialogOpen := True\<rparr>))
       = [SwitchToVersion (js_lit ''chat-1'') 2 User]
   \<and> error (fst (listItemClick rejectingStore sampleProps version2
                    (initialState\<lparr>dialogOpen := True\<rparr>)))
       = Some (js_lit ''Failed to switch version'')
   \<and> dialogOpen (fst (listItemClick rejectingStore sampleProps version2
                         (initialState\<lparr>dialogOpen := True\<rparr>)))
   \<and> hostAdopt sampleProps
        (snd (listItemClick rejectingStore sampleProps version2
                (initialState\<lparr>dialogOpen := True\<rparr>))) = sampleProps
   \<and> snd (handleVersionSelect_v1 (versionNumber version2) (initialState\<lparr>dialogOpen := True\<rparr>))
       = [OnVersionChange 2]
   \<and> \<not> dialogOpen (fst (handleVersionSelect_v1 (versionNumber version2)
                           (initialState\<lparr>dialogOpen := True\<rparr>)))"
  using select_version_both_variants
          [of "initialState\<lparr>dialogOpen := True\<rparr>" resolvingStore sampleProps version2
              "JsError None"]
        select_version_both_variants
          [of "initialState\<lparr>dialogOpen := True\<rparr>" rejectingStore sampleProps version2
              "JsError None"]
  by (simp add: initialState_def resolvingStore_def rejectingStore_def sampleProps_def
        version2_def message_or_def)

text \<open>
  C7. In compare mode a click on the row of version \<open>n\<close> removes \<open>n\<close> from
  \<open>selectedVersions\<close> if it is there, appends it if it is not there and fewer than two
  are selected, and changes nothing (and calls nothing) if two are selected and \<open>n\<close> is
  not among them. The click keeps the selection within two entries without duplicates,
  and so does every session of actions, from the initial state and from any state just
  after the Compare toggle.
\<close>

theorem compare_selection_capped:
  assumes "compareMode s"
  shows "(versionNumber v \<in> set (selectedVersions s) \<longrightarrow>
            selectedVersions (fst (listItemClick store p v s)) =
              removeAll (versionNumber v) (selectedVersions s)
          \<and> versionNumber v \<notin> set (selectedVersions (fst (listItemClick store p v s))))
       \<and> (versionNumber v \<notin> set (selectedVersions s) \<and> length (selectedVersions s) < 2 \<longrightarrow>
            selectedVersions (fst (listItemClick store p v s)) =
              selectedVersions s @ [versionNumber v])
       \<and> (versionNumber v \<notin> set (selectedVersions s) \<and> length (selectedVersions s) = 2 \<longrightarrow>
            listItemClick store p v s = (s, []))
       \<and> (selection_ok s \<longrightarrow> selection_ok (fst (listItemClick store p v s)))
       \<and> selection_ok (run initialState as)
       \<and> selection_ok (run (toggleCompareMode s) as)"
proof -
  have flt: "filter (\<lambda>x. x \<noteq> versionNumber v) (selectedVersions s)
               = removeAll (versionNumber v) (selectedVersions s)"
    by (rule filter_neq_removeAll)
  have a: "versionNumber v \<in> set (selectedVersions s) \<longrightarrow>
            selectedVersions (fst (listItemClick store p v s)) =
              removeAll (versionNumber v) (selectedVersions s)
          \<and> versionNumber v \<notin> set (selectedVersions (fst (listItemClick store p v s)))"
    using assms by (simp add: listItemClick_def handleVersionToggleForCompare_def flt)
  have b: "versionNumber v \<notin> set (selectedVersions s) \<and> length (selectedVersions s) < 2 \<longrightarrow>
            selectedVersions (fst (listItemClick store p v s)) =
              selectedVersions s @ [versionNumber v]"
    using assms by (simp add: listItemClick_def handleVersionToggleForCompare_def)
  have c: "versionNumber v \<notin> set (selectedVersions s) \<and> length (selectedVersions s) = 2 \<longrightarrow>
            listItemClick store p v s = (s, [])"
    using assms by (simp add: listItemClick_def handleVersionToggleForCompare_def)
  have d: "selection_ok s \<longrightarrow> selection_ok (fst (listItemClick store p v s))"
    using assms toggle_selection_ok[of s "versionNumber v"] by (simp add: listItemClick_def)
  have "selection_ok initialState" by (simp add: selection_ok_def initialState_def)
  then have e: "selection_ok (run initialState as)" by (rule run_selection_ok)
  have "selection_ok (toggleCompareMode s)" by (simp add: selection_ok_def toggleCompareMode_def)
  then have f: "selection_ok (run (toggleCompareMode s) as)" by (rule run_selection_ok)
  from a b c d e f show ?thesis by blast
qed

theorem compare_selection_capped_witness:
  "compareMode compareState
   \<and> selectedVersions (fst (listItemClick resolvingStore sampleProps version2
        (compareState\<lparr>selectedVersions := [1, 2]\<rparr>))) = [1]
   \<and> selectedVersions (fst (listItemClick resolvingStore sampleProps version2
        (compareState\<lparr>selectedVersions := [1]\<rparr>))) = [1, 2]
   \<and> listItemClick resolvingStore sampleProps version3 (compareState\<lparr>selectedVersions := [1, 2]\<rparr>)
        = (compareState\<lparr>selectedVersions := [1, 2]\<rparr>, [])
   \<and> selection_ok (compareState\<lparr>selectedVersions := [1, 2]\<rparr>)
   \<and> selection_ok (fst (listItemClick resolvingStore sampleProps version3
        (compareState\<lparr>selectedVersions := [1, 2]\<rparr>)))
   \<and> selection_ok (run initialState
        [(resolvingStore, sampleProps, ClickViewAll), (resolvingStore, sampleProps, ClickCompare),
         (resolvingStore, sampleProps, ClickRow version1),
         (resolvingStore, sampleProps, ClickRow version2),
         (resolvingStore, sampleProps, ClickRow version3)])"
  using compare_selection_capped
          [of "compareState\<lparr>selectedVersions := [1, 2]\<rparr>" version2 resolvingStore sampleProps
              "[(resolvingStore, sampleProps, ClickViewAll), (resolvingStore, sampleProps, ClickCompare),
                (resolvingStore, sampleProps, ClickRow version1),
                (resolvingStore, sampleProps, ClickRow version2),
                (resolvingStore, sampleProps, ClickRow version3)]"]
        compare_selection_capped
          [of "compareState\<lparr>selectedVersions := [1]\<rparr>" version2 resolvingStore sampleProps "[]"]
        compare_selection_capped
          [of "compareState\<lparr>selectedVersions := [1, 2]\<rparr>" version3 resolvingStore sampleProps "[]"]
  by (simp add: compareState_def initialState_def version2_def version3_def selection_ok_def)

text \<open>
  C9. While \<open>compareMode\<close> is true a click on a row of the version list issues no call
  at all (no store switch, no \<open>onVersionChange\<close>), leaves \<open>dialogOpen\<close> as it is, and
  changes no part of the state other than \<open>selectedVersions\<close>. There it toggles the
  membership of that row's version: a selected version is removed, an unselected one is
  appended while fewer than two are selected (with two selected, a click on a third
  changes nothing, the cap of C7). The membership of every other version is untouched.
\<close>

theorem compare_click_toggles:
  assumes "compareMode s"
  shows "snd (listItemClick store p v s) = []
       \<and> dialogOpen (fst (listItemClick store p v s)) = dialogOpen s
       \<and> fst (listItemClick store p v s) =
           s\<lparr>selectedVersions := selectedVersions (fst (listItemClick store p v s))\<rparr>
       \<and> (versionNumber v \<in> set (selectedVersions s) \<longrightarrow>
            selectedVersions (fst (listItemClick store p v s)) =
              removeAll (versionNumber v) (selectedVersions s)
          \<and> versionNumber v \<notin> set (selectedVersions (fst (listItemClick store p v s))))
       \<and> (versionNumber v \<notin> set (selectedVersions s) \<and> length (selectedVersions s) < 2 \<longrightarrow>
            selectedVersions (fst (listItemClick store p v s)) =
              selectedVersions s @ [versionNumber v]
          \<and> versionNumber v \<in> set (selectedVersions (fst (listItemClick store p v s))))
       \<and> (versionNumber v \<notin> set (selectedVersions s) \<and> 2 \<le> length (selectedVersions s) \<longrightarrow>
            selectedVersions (fst (listItemClick store p v s)) = selectedVersions s)
       \<and> (\<forall>m. m \<noteq> versionNumber v \<longrightarrow>
             (m \<in> set (selectedVersions (fst (listItemClick store p v s)))) =
             (m \<in> set (selectedVersions s)))"
proof -
  have frame: "snd (listItemClick store p v s) = []
       \<and> dialogOpen (fst (listItemClick store p v s)) = dialogOpen s
       \<and> fst (listItemClick store p v s) =
           s\<lparr>selectedVersions := selectedVersions (fst (listItemClick store p v s))\<rparr>"
    using assms by (simp add: listItemClick_def handleVersionToggleForCompare_def)
  have removed: "versionNumber v \<in> set (selectedVersions s) \<longrightarrow>
            selectedVersions (fst (listItemClick store p v s)) =
              removeAll (versionNumber v) (selectedVersions s)
          \<and> versionNumber v \<notin> set (selectedVersions (fst (listItemClick store p v s)))"
    using assms
    by (simp add: listItemClick_def handleVersionToggleForCompare_def filter_neq_removeAll)
  have added: "versionNumber v \<notin> set (selectedVersions s) \<and> length (selectedVersions s) < 2 \<longrightarrow>
            selectedVersions (fst (listItemClick store p v s)) =
              selectedVersions s @ [versionNumber v]
          \<and> versionNumber v \<in> set (selectedVersions (fst (listItemClick store p v s)))"
    using assms by (simp add: listItemClick_def handleVersionToggleForCompare_def)
  have capped: "versionNumber v \<notin> set (selectedVersions s) \<and> 2 \<le> length (selectedVersions s) \<longrightarrow>
            selectedVersions (fst (listItemClick store p v s)) = selectedVersions s"
    using assms by (simp add: listItemClick_def handleVersionToggleForCompare_def)
  have others: "\<forall>m. m \<noteq> versionNumber v \<longrightarrow>
             (m \<in> set (selectedVersions (fst (listItemClick store p v s)))) =
             (m \<in> set (selectedVersions s))"
    using assms by (auto simp: listItemClick_def handleVersionToggleForCompare_def)
  from frame removed added capped others show ?thesis by blast
qed

theorem compare_click_toggles_witness:
  "compareMode compareState
   \<and> dialogOpen compareState
   \<and> listItemClick resolvingStore sampleProps version2 compareState
       = (compareState\<lparr>selectedVersions := [2]\<rparr>, [])
   \<and> listItemClick resolvingStore sampleProps version2 (compareState\<lparr>selectedVersions := [1, 2]\<rparr>)
       = (compareState\<lparr>selectedVersions := [1]\<rparr>, [])
   \<and> listItemClick resolvingStore sampleProps version3 (compareState\<lparr>selectedVersions := [1, 2]\<rparr>)
       = (compareState\<lparr>selectedVersions := [1, 2]\<rparr>, [])
   \<and> dialogOpen (fst (listItemClick resolvingStore sampleProps version2 compareState))"
  using compare_click_toggles [of compareState resolvingStore sampleProps version2]
        compare_click_toggles [of "compareState\<lparr>selectedVersions := [1, 2]\<rparr>" resolvingStore
                                  sampleProps version2]
        compare_click_toggles [of "compareState\<lparr>selectedVersions := [1, 2]\<rparr>" resolvingStore
                                  sampleProps version3]
  by (simp add: compareState_def initialState_def version2_def version3_def
        listItemClick_def handleVersionToggleForCompare_def)

section \<open>Cyclic navigation\<close>

text \<open>
  C6. With \<open>1 \<le> currentVersion \<le> totalVersions\<close>, the previous button reports
  \<open>currentVersion - 1\<close> to the host when \<open>currentVersion > 1\<close> and \<open>totalVersions\<close>
  when \<open>currentVersion = 1\<close>; the next button reports \<open>currentVersion + 1\<close> when
  \<open>currentVersion < totalVersions\<close> and \<open>1\<close> when \<open>currentVersion = totalVersions\<close>.
  Each handler reports exactly one version and leaves the component state, and with it
  \<open>error\<close>, as it was: no boundary produces an error.
\<close>

theorem step_previous_next_requests:
  assumes "1 \<le> currentVersion p" and "currentVersion p \<le> totalVersions p"
  shows "(currentVersion p > 1 \<longrightarrow>
            handlePreviousVersion p s = (s, [OnVersionChange (currentVersion p - 1)]))
       \<and> (currentVersion p = 1 \<longrightarrow>
            handlePreviousVersion p s = (s, [OnVersionChange (totalVersions p)]))
       \<and> (currentVersion p < totalVersions p \<longrightarrow>
            handleNextVersion p s = (s, [OnVersionChange (currentVersion p + 1)]))
       \<and> (currentVersion p = totalVersions p \<longrightarrow>
            handleNextVersion p s = (s, [OnVersionChange 1]))
       \<and> error (fst (handlePreviousVersion p s)) = error s
       \<and> error (fst (handleNextVersion p s)) = error s"
  using assms by (simp add: handlePreviousVersion_def handleNextVersion_def)

theorem step_previous_next_requests_witness:
  "1 \<le> currentVersion sampleProps \<and> currentVersion sampleProps \<le> totalVersions sampleProps
   \<and> handlePreviousVersion sampleProps initialState = (initialState, [OnVersionChange 3])
   \<and> handleNextVersion sampleProps initialState = (initialState, [OnVersionChange 2])
   \<and> handlePreviousVersion (sampleProps\<lparr>currentVersion := 3\<rparr>) initialState
       = (initialState, [OnVersionChange 2])
   \<and> handleNextVersion (sampleProps\<lparr>currentVersion := 3\<rparr>) initialState
       = (initialState, [OnVersionChange 1])"
  using step_previous_next_requests [of sampleProps initialState]
        step_previous_next_requests [of "sampleProps\<lparr>currentVersion := 3\<rparr>" initialState]
  by (simp add: sampleProps_def)

text \<open>
  C8. For \<open>totalVersions \<ge> 1\<close>, starting at version 1 and pressing next
  \<open>totalVersions\<close> times, the host adopting each reported version, ends at version 1.
\<close>

theorem step_next_cyclic_closure:
  assumes "1 \<le> totalVersions p" and "currentVersion p = 1"
  shows "currentVersion ((stepNextAdopted s ^^ nat (totalVersions p)) p) = 1"
proof -
  obtain k where k: "nat (totalVersions p) = Suc k"
    using assms(1) by (cases "nat (totalVersions p)") auto
  then have lt: "int k < totalVersions p" by linarith
  have "currentVersion ((stepNextAdopted s ^^ k) p) = 1 + int k"
    using assms(2) lt by (rule stepNextAdopted_funpow_current)
  moreover have "1 + int k = totalVersions p" using k by linarith
  ultimately have "currentVersion ((stepNextAdopted s ^^ k) p)
                     = totalVersions ((stepNextAdopted s ^^ k) p)"
    by simp
  then have "currentVersion (stepNextAdopted s ((stepNextAdopted s ^^ k) p)) = 1"
    by (simp add: stepNextAdopted_current)
  then show ?thesis using k by simp
qed

theorem step_next_cyclic_closure_witness:
  "1 \<le> totalVersions sampleProps \<and> currentVersion sampleProps = 1
   \<and> nat (totalVersions sampleProps) = 3
   \<and> currentVersion (stepNextAdopted initialState sampleProps) = 2
   \<and> currentVersion (stepNextAdopted initialState
                        (stepNextAdopted initialState
                          (stepNextAdopted initialState sampleProps))) = 1"
  using step_next_cyclic_closure [of sampleProps initialState]
  by (simp add: sampleProps_def stepNextAdopted_current numeral_3_eq_3)

section \<open>Saving an edit\<close>

text \<open>
  C5 as stated fails. With a draft equal to the original content \<open>handleSave\<close> does
  nothing: no callback is invoked and the message stays in edit mode. With an original
  that starts with white space, a draft equal to it has a trimmed form that is non-empty
  and differs from the original, yet nothing is invoked either.
\<close>

theorem save_equal_draft_counterexample:
  "saveEdit helloProps (js_lit ''hello'') (seededEditor (js_lit ''hello'')) editingState
     = (editingState, [])
   \<and> isEditing editingState
   \<and> trim (js_lit '' hello'') \<noteq> []
   \<and> trim (js_lit '' hello'') \<noteq> messageContent paddedProps
   \<and> saveEdit paddedProps (js_lit '' hello'') (seededEditor (js_lit '' hello'')) editingState
     = (editingState, [])"
  by (simp add: saveEdit_def handleSave_def editorChange_def helloProps_def paddedProps_def
        seededEditor_def editingState_def js_lit_def Let_def trim_def is_js_whitespace_def)

text \<open>
  C5, amended. Saving a draft whose trimmed form is empty, or that equals the original
  content, does nothing: no callback, and edit mode stays as it is. Otherwise edit mode
  exits, and the host's edit callback is invoked, with the trimmed draft, exactly when
  the host supplied one and the trimmed draft differs from the original content.
\<close>

theorem saveEdit_behaviour:
  "saveEdit cp draft ed h =
     (if trim draft \<noteq> [] \<and> draft \<noteq> messageContent cp
      then (h\<lparr>isEditing := False\<rparr>,
            if onEditMessageGiven cp \<and> trim draft \<noteq> messageContent cp
            then [OnEditMessage (trim draft)] else [])
      else (h, []))"
  by (simp add: saveEdit_def handleSave_def editorChange_def handleSaveEdit_def Let_def trim_idem)

theorem saveEdit_behaviour_witness:
  "saveEdit helloProps (js_lit ''  hello world '') (seededEditor (js_lit ''hello'')) editingState
     = (editingState\<lparr>isEditing := False\<rparr>, [OnEditMessage (js_lit ''hello world'')])
   \<and> saveEdit helloProps (js_lit ''hello '') (seededEditor (js_lit ''hello'')) editingState
     = (editingState\<lparr>isEditing := False\<rparr>, [])
   \<and> saveEdit helloProps (js_lit ''   '') (seededEditor (js_lit ''hello'')) editingState
     = (editingState, [])
   \<and> saveEdit helloProps (js_lit ''hello'') (seededEditor (js_lit ''hello'')) editingState
     = (editingState, [])"
  using saveEdit_behaviour [of helloProps "js_lit ''  hello world ''"
                            "seededEditor (js_lit ''hello'')" editingState]
        saveEdit_behaviour [of helloProps "js_lit ''hello ''"
                            "seededEditor (js_lit ''hello'')" editingState]
        saveEdit_behaviour [of helloProps "js_lit ''   ''"
                            "seededEditor (js_lit ''hello'')" editingState]
        saveEdit_behaviour [of helloProps "js_lit ''hello''"
                            "seededEditor (js_lit ''hello'')" editingState]
  by (simp add: helloProps_def js_lit_def trim_def is_js_whitespace_def)

end
